theory Spec2Isabelle
  imports Complex_Main "HOL-Library.Multiset"
begin

section \<open>Data model of \<open>main.py\<close>\<close>

text \<open>
  The raw game records are JSON dictionaries. Every key the code reads is modelled as a
  field that may be absent, so that \<open>game["k"]\<close> on a missing key is the \<open>KeyError\<close>
  Python raises, \<open>"k" in game\<close> is a test for presence and \<open>game.get("pgn", "")\<close> is a
  default. Python floats are modelled as exact reals: the theory speaks about the
  arithmetic the code writes down, not about binary rounding.
\<close>

datatype error =
    KeyError string
  | AttributeError
  | EngineError
  | ZeroDivisionError

record side =
  side_username :: "string option"
  side_result :: "string option"

record game =
  white :: "side option"
  black :: "side option"
  pgn :: "string option"
  url :: "string option"

text \<open>The dictionary returned by \<open>analyze_game_process_safe\<close>.\<close>

record game_result =
  oponente :: string
  resultado :: string
  precisao :: real
  res_url :: string

text \<open>The tuple \<open>(game, username, STOCKFISH_PATH)\<close> appended to \<open>partidas\<close>.\<close>

type_synonym work_unit = "game \<times> string \<times> string"

subsection \<open>The chess library and the engine, at their interface\<close>

text \<open>
  \<open>chess.WHITE\<close> and \<open>chess.BLACK\<close>; a \<open>chess.Move\<close> is identified with its UCI text
  (\<open>move.uci()\<close>: origin, destination, promotion); a \<open>chess.Board\<close> is its starting
  position, the side to move and the moves pushed so far. \<open>board.push\<close> appends the move
  and passes the turn.
\<close>

datatype color = White | Black

type_synonym move = string

record board =
  start_fen :: string
  turn :: color
  move_stack :: "move list"

fun flip :: "color \<Rightarrow> color" where
  "flip White = Black"
| "flip Black = White"

definition push :: "board \<Rightarrow> move \<Rightarrow> board" where
  "push b m = b\<lparr>turn := flip (turn b), move_stack := move_stack b @ [m]\<rparr>"

text \<open>What \<open>chess.pgn.read_game\<close> returns: the starting board and the mainline moves.\<close>

record parsed_game =
  start_board :: board
  mainline_moves :: "move list"

text \<open>The body of an HTTP response, as far as the code reads it.\<close>

record response =
  status_code :: nat
  json_archives :: "string list option"
  json_games :: "game list option"

text \<open>
  The collaborators outside the repository: the HTTP client, the PGN parser and the
  Stockfish process. \<open>stockfish_start path\<close> says whether \<open>Stockfish(path=path)\<close>
  succeeds; \<open>stockfish_best b\<close> is \<open>set_fen_position(b.fen())\<close> followed by
  \<open>get_best_move()\<close>, which answers a move or \<open>None\<close>, or raises because the process
  died; \<open>read_game\<close> answers \<open>None\<close> when the text holds no game.
\<close>

datatype engine_reply = EngineDied | BestMove "string option"

record externals =
  scraper_get :: "string \<Rightarrow> response"
  read_game :: "string \<Rightarrow> parsed_game option"
  stockfish_start :: "string \<Rightarrow> bool"
  stockfish_best :: "board \<Rightarrow> engine_reply"

text \<open>What a run does to the engine, in order.\<close>

datatype event = EngineStart string | EngineQuery board

section \<open>Python primitives\<close>

text \<open>\<open>str.lower()\<close> on the ASCII letters, which is all a chess.com username holds.\<close>

definition lower_char :: "char \<Rightarrow> char" where
  "lower_char c =
     (let n = (of_char c :: nat)
      in if 65 \<le> n \<and> n \<le> 90 then char_of (n + 32) else c)"

definition lower :: "string \<Rightarrow> string" where
  "lower s = map lower_char s"

text \<open>\<open>round(x, 2)\<close>: to the nearest multiple of 0.01, a tie going to the even one.\<close>

definition round_half_even :: "real \<Rightarrow> int" where
  "round_half_even y =
     (let f = \<lfloor>y\<rfloor>; d = y - of_int f
      in if d < 1 / 2 then f
         else if 1 / 2 < d then f + 1
         else if even f then f else f + 1)"

definition py_round2 :: "real \<Rightarrow> real" where
  "py_round2 x = of_int (round_half_even (x * 100)) / 100"

definition py_truediv :: "nat \<Rightarrow> nat \<Rightarrow> error + real" where
  "py_truediv a b = (if b = 0 then Inl ZeroDivisionError else Inr (real a / real b))"

definition get_key :: "string \<Rightarrow> 'a option \<Rightarrow> error + 'a" where
  "get_key k v = (case v of None \<Rightarrow> Inl (KeyError k) | Some x \<Rightarrow> Inr x)"

definition bind_err :: "error + 'a \<Rightarrow> ('a \<Rightarrow> error + 'b) \<Rightarrow> error + 'b" where
  "bind_err m f = (case m of Inl e \<Rightarrow> Inl e | Inr x \<Rightarrow> f x)"

section \<open>Fetching\<close>

definition STOCKFISH_PATH :: string where
  "STOCKFISH_PATH = ''./bin/stockfish''"

definition fetch_archives :: "externals \<Rightarrow> string \<Rightarrow> string list" where
  "fetch_archives ext handle =
     (let res = scraper_get ext
            (''https://api.chess.com/pub/player/'' @ lower handle @ ''/games/archives'')
      in if status_code res \<noteq> 200 then []
         else (case json_archives res of None \<Rightarrow> [] | Some a \<Rightarrow> a))"

definition fetch_games_from_archive :: "externals \<Rightarrow> string \<Rightarrow> game list" where
  "fetch_games_from_archive ext archive_url =
     (let res = scraper_get ext archive_url
      in if status_code res \<noteq> 200 then []
         else (case json_games res of None \<Rightarrow> [] | Some g \<Rightarrow> g))"

section \<open>\<open>analyze_game_process_safe\<close>\<close>

text \<open>
  Lines 46 to 48: the opponent, the reported result and the colour of the requested handle.
  Each conditional expression evaluates its test first and then only the branch it takes;
  the comparisons are Python's \<open>==\<close> on the handle as requested.
\<close>

definition username_of :: "string \<Rightarrow> side option \<Rightarrow> error + string" where
  "username_of k s = bind_err (get_key k s) (\<lambda>p. get_key ''username'' (side_username p))"

definition result_of :: "string \<Rightarrow> side option \<Rightarrow> error + string" where
  "result_of k s = bind_err (get_key k s) (\<lambda>p. get_key ''result'' (side_result p))"

definition opponent_of :: "game \<Rightarrow> string \<Rightarrow> error + string" where
  "opponent_of g handle =
     bind_err (username_of ''black'' (black g)) (\<lambda>bu.
       if bu = handle then username_of ''white'' (white g)
       else username_of ''black'' (black g))"

definition outcome_of :: "game \<Rightarrow> string \<Rightarrow> error + string" where
  "outcome_of g handle =
     bind_err (username_of ''white'' (white g)) (\<lambda>wu.
       if wu = handle then result_of ''white'' (white g)
       else result_of ''black'' (black g))"

definition user_color_of :: "game \<Rightarrow> string \<Rightarrow> error + string" where
  "user_color_of g handle =
     bind_err (username_of ''white'' (white g)) (\<lambda>wu.
       Inr (if wu = handle then ''white'' else ''black''))"

text \<open>
  The loop of lines 57 to 65 over the mainline moves, with the counters \<open>total_moves\<close>
  and \<open>best_moves\<close> and the board as its state. It answers the engine queries it made, in
  order, and either the final \<open>(total_moves, best_moves)\<close> or the error an engine call
  raised.
\<close>

fun replay :: "externals \<Rightarrow> string \<Rightarrow> board \<Rightarrow> nat \<Rightarrow> nat \<Rightarrow> move list
    \<Rightarrow> event list \<times> (error + nat \<times> nat)" where
  "replay ext user_color b total_moves best_moves [] = ([], Inr (total_moves, best_moves))"
| "replay ext user_color b total_moves best_moves (m # ms) =
     (let b' = push b m;
          total_moves' = total_moves + 1
      in if (user_color = ''white'' \<and> turn b' = Black)
            \<or> (user_color = ''black'' \<and> turn b' = White)
         then replay ext user_color b' total_moves' best_moves ms
         else (case stockfish_best ext b' of
                 EngineDied \<Rightarrow> ([EngineQuery b'], Inl EngineError)
               | BestMove best \<Rightarrow>
                   (let r = replay ext user_color b' total_moves'
                              (if best = Some m then best_moves + 1 else best_moves) ms
                    in (EngineQuery b' # fst r, snd r))))"

text \<open>Lines 50 to 65: nothing is replayed when the move text is missing or empty.\<close>

definition count_moves :: "externals \<Rightarrow> string \<Rightarrow> game \<Rightarrow> event list \<times> (error + nat \<times> nat)" where
  "count_moves ext user_color g =
     (let pgn_text = (case pgn g of None \<Rightarrow> [] | Some t \<Rightarrow> t)
      in if pgn_text \<noteq> []
         then (case read_game ext pgn_text of
                 None \<Rightarrow> ([], Inl AttributeError)
               | Some game_pgn \<Rightarrow>
                   replay ext user_color (start_board game_pgn) 0 0 (mainline_moves game_pgn))
         else ([], Inr (0, 0)))"

text \<open>Line 67.\<close>

definition accuracy :: "nat \<Rightarrow> nat \<Rightarrow> error + real" where
  "accuracy best_moves total_moves =
     (if total_moves \<noteq> 0
      then bind_err (py_truediv best_moves total_moves) (\<lambda>q. Inr (py_round2 (q * 100)))
      else Inr 0)"

definition analyze_game_process_safe :: "externals \<Rightarrow> work_unit \<Rightarrow> event list \<times> (error + game_result)" where
  "analyze_game_process_safe ext game_data =
     (case game_data of (g, handle, stockfish_path) \<Rightarrow>
        if \<not> stockfish_start ext stockfish_path then ([EngineStart stockfish_path], Inl EngineError)
        else (case bind_err (opponent_of g handle) (\<lambda>opponent.
                     bind_err (outcome_of g handle) (\<lambda>result.
                     bind_err (user_color_of g handle) (\<lambda>user_color.
                       Inr (opponent, result, user_color)))) of
                Inl e \<Rightarrow> ([EngineStart stockfish_path], Inl e)
              | Inr (opponent, result, user_color) \<Rightarrow>
                  (case count_moves ext user_color g of
                     (tr, Inl e) \<Rightarrow> (EngineStart stockfish_path # tr, Inl e)
                   | (tr, Inr (total_moves, best_moves)) \<Rightarrow>
                       (EngineStart stockfish_path # tr,
                        bind_err (accuracy best_moves total_moves) (\<lambda>p.
                        bind_err (get_key ''url'' (url g)) (\<lambda>u.
                          Inr \<lparr>oponente = opponent, resultado = result,
                               precisao = p, res_url = u\<rparr>))))))"

section \<open>\<open>avaliar_suspeita\<close>\<close>

text \<open>The local \<open>score\<close> of lines 83 to 96, for a batch that is not empty.\<close>

definition suspicion_score :: "game_result list \<Rightarrow> real" where
  "suspicion_score jogos =
     (let total = real (length jogos);
          vitorias = real (length (filter (\<lambda>j. resultado j = ''win'') jogos));
          media_precisao = sum_list (map precisao jogos) / total;
          partidas_precisas = real (length (filter (\<lambda>j. precisao j > 90) jogos));
          vitorias_pct = vitorias / total;
          precisao_alta_pct = partidas_precisas / total
      in ((media_precisao / 100) * 0.5 + vitorias_pct * 0.3 + precisao_alta_pct * 0.2) * 100)"

definition avaliar_suspeita :: "game_result list \<Rightarrow> bool" where
  "avaliar_suspeita jogos =
     (if length jogos = 0 then False else suspicion_score jogos \<ge> 75)"

section \<open>\<open>analisar_usuario\<close>\<close>

text \<open>
  The inner loop of lines 115 to 121 over the games of one archive: it stops at ten work
  units, passes over a record without a \<open>white\<close> or a \<open>black\<close> entry and keeps a
  record when the lower-cased handle is one of the two lower-cased usernames.
\<close>

definition max_partidas :: nat where
  "max_partidas = 10"

fun select_games :: "string \<Rightarrow> work_unit list \<Rightarrow> game list \<Rightarrow> error + work_unit list" where
  "select_games handle partidas [] = Inr partidas"
| "select_games handle partidas (g # gs) =
     (if length partidas \<ge> max_partidas then Inr partidas
      else if white g \<noteq> None \<and> black g \<noteq> None
      then bind_err (username_of ''white'' (white g)) (\<lambda>wu.
           bind_err (username_of ''black'' (black g)) (\<lambda>bu.
             if lower handle \<in> set [lower wu, lower bu]
             then select_games handle (partidas @ [(g, handle, STOCKFISH_PATH)]) gs
             else select_games handle partidas gs))
      else select_games handle partidas gs)"

text \<open>The outer loop of lines 113 to 123, over the archives newest first.\<close>

fun select_archives :: "externals \<Rightarrow> string \<Rightarrow> work_unit list \<Rightarrow> string list
    \<Rightarrow> error + work_unit list" where
  "select_archives ext handle partidas [] = Inr partidas"
| "select_archives ext handle partidas (archive # rest) =
     bind_err (select_games handle partidas (fetch_games_from_archive ext archive)) (\<lambda>partidas'.
       if length partidas' \<ge> max_partidas then Inr partidas'
       else select_archives ext handle partidas' rest)"

text \<open>
  \<open>as_completed\<close> hands the futures over in the order they finish, which the scheduler
  decides: the list \<open>sched\<close> picks, at each step, which of the futures still running
  finishes next. Every list of picks gives an order, and every order comes from one.
\<close>

fun as_completed :: "nat list \<Rightarrow> 'a list \<Rightarrow> 'a list" where
  "as_completed sched [] = []"
| "as_completed [] futures = futures"
| "as_completed (k # sched) futures =
     (let i = k mod length futures
      in futures ! i # as_completed sched (take i futures @ drop (Suc i) futures))"

text \<open>
  The loop of lines 129 to 133: the result of a future is appended, an exception is
  printed and dropped.
\<close>

fun collect :: "game_result list \<Rightarrow> (event list \<times> (error + game_result)) list \<Rightarrow> game_result list" where
  "collect detalhes [] = detalhes"
| "collect detalhes ((tr, Inr r) # futures) = collect (detalhes @ [r]) futures"
| "collect detalhes ((tr, Inl e) # futures) = collect detalhes futures"

text \<open>
  Lines 125 to 133: every work unit is submitted, and the results are collected as the
  futures finish. The engine events of the batch are listed unit by unit, in the order
  of completion.
\<close>

definition run_pool :: "externals \<Rightarrow> nat list \<Rightarrow> work_unit list \<Rightarrow> event list \<times> game_result list" where
  "run_pool ext sched partidas =
     (let futures = as_completed sched (map (analyze_game_process_safe ext) partidas)
      in (concat (map fst futures), collect [] futures))"

text \<open>
  A pool process runs the calls it is handed one after the other; this is what one
  process does on the units that reach it.
\<close>

definition worker :: "externals \<Rightarrow> work_unit list \<Rightarrow> (event list \<times> (error + game_result)) list" where
  "worker ext units = map (analyze_game_process_safe ext) units"

record report =
  usuario :: string
  jogos_analisados :: nat
  detalhes :: "game_result list"
  suspeito :: bool

text \<open>The two dictionaries the endpoint returns (the messages without their accents).\<close>

datatype payload = Erro string | Relatorio report

definition analisar_usuario :: "externals \<Rightarrow> nat list \<Rightarrow> string \<Rightarrow> event list \<times> (error + payload)" where
  "analisar_usuario ext sched handle =
     (let archives = fetch_archives ext handle
      in if archives = [] then ([], Inr (Erro ''Usuario nao encontrado ou sem partidas.''))
         else (case select_archives ext handle [] (rev archives) of
                 Inl e \<Rightarrow> ([], Inl e)
               | Inr partidas \<Rightarrow>
                   (case run_pool ext sched partidas of (tr, ds) \<Rightarrow>
                      if ds = [] then (tr, Inr (Erro ''Nenhuma partida encontrada para este usuario.''))
                      else (tr, Inr (Relatorio \<lparr>usuario = handle, jogos_analisados = length ds,
                                       detalhes = ds, suspeito = avaliar_suspeita ds\<rparr>)))))"

section \<open>The quantities the specification names\<close>





text \<open>
  The moves of a game that the side \<open>user_color\<close> made: those pushed while that side was
  to move, the turn passing after each move.
\<close>

fun player_moves :: "string \<Rightarrow> color \<Rightarrow> move list \<Rightarrow> nat" where
  "player_moves user_color t [] = 0"
| "player_moves user_color t (m # ms) =
     (if (user_color = ''white'' \<and> t = White) \<or> (user_color = ''black'' \<and> t = Black)
      then 1 else 0) + player_moves user_color (flip t) ms"

text \<open>
  The moves of a work unit attributed to the requested handle: those of the colour line 48
  gives it, in the game the parser reads from the move text; none where there is no game.
\<close>

definition target_moves :: "externals \<Rightarrow> work_unit \<Rightarrow> nat" where
  "target_moves ext game_data =
     (case game_data of (g, handle, stockfish_path) \<Rightarrow>
        (case user_color_of g handle of
           Inl e \<Rightarrow> 0
         | Inr user_color \<Rightarrow>
             (case pgn g of
                None \<Rightarrow> 0
              | Some t \<Rightarrow>
                  (case read_game ext t of
                     None \<Rightarrow> 0
                   | Some game_pgn \<Rightarrow>
                       player_moves user_color (turn (start_board game_pgn))
                         (mainline_moves game_pgn)))))"

text \<open>
  A chess engine answers a move of the side to move. The move just played left its
  origin square empty, so the answer for the position after a move is never that move.
\<close>

definition never_echo :: "externals \<Rightarrow> bool" where
  "never_echo ext = (\<forall>b m. stockfish_best ext (push b m) \<noteq> BestMove (Some m))"

fun is_engine_start :: "event \<Rightarrow> bool" where
  "is_engine_start (EngineStart p) = True"
| "is_engine_start (EngineQuery b) = False"

definition engine_starts :: "(event list \<times> (error + game_result)) list \<Rightarrow> nat" where
  "engine_starts runs = length (filter is_engine_start (concat (map fst runs)))"

section \<open>Sample inputs\<close>

definition start_position :: board where
  "start_position = \<lparr>start_fen = ''startpos'', turn = White, move_stack = []\<rparr>"

definition player :: "string \<Rightarrow> string \<Rightarrow> side" where
  "player name res = \<lparr>side_username = Some name, side_result = Some res\<rparr>"

text \<open>Alice has White and wins a two-move game against Bob.\<close>

definition game_alice_bob :: game where
  "game_alice_bob =
     \<lparr>white = Some (player ''Alice'' ''win''), black = Some (player ''bob'' ''resigned''),
      pgn = Some ''1. e4 e5'', url = Some ''g1''\<rparr>"

text \<open>The same game as the archive lists it when the move text is missing.\<close>

definition game_no_pgn :: game where
  "game_no_pgn = game_alice_bob\<lparr>pgn := None\<rparr>"

text \<open>A record without a \<open>white\<close> entry, and one whose \<open>white\<close> entry has no username.\<close>

definition game_no_white :: game where
  "game_no_white = game_alice_bob\<lparr>white := None\<rparr>"

definition game_no_username :: game where
  "game_no_username =
     game_alice_bob\<lparr>white := Some \<lparr>side_username = None, side_result = Some ''win''\<rparr>\<rparr>"

text \<open>A record whose move text is blank: the parser finds no game in it.\<close>

definition game_blank_pgn :: game where
  "game_blank_pgn = game_alice_bob\<lparr>pgn := Some '' '', url := Some ''g3''\<rparr>"

text \<open>Bob has White and plays one move; Alice, with Black, never moves.\<close>

definition game_bob_alice :: game where
  "game_bob_alice =
     \<lparr>white = Some (player ''bob'' ''win''), black = Some (player ''Alice'' ''timeout''),
      pgn = Some ''1. e4'', url = Some ''g2''\<rparr>"

text \<open>
  An archive service with one archive period holding the given games, a parser that reads
  the two sample move texts, and an engine that starts wherever it is looked for, prefers
  \<open>e2e4\<close> in the starting position, \<open>e7e5\<close> after it and \<open>g1f3\<close> after \<open>1. e4 e5\<close>.
\<close>

definition sample_ext :: "game list \<Rightarrow> externals" where
  "sample_ext games =
     \<lparr>scraper_get = (\<lambda>u. if u = ''a1''
                           then \<lparr>status_code = 200, json_archives = None, json_games = Some games\<rparr>
                           else \<lparr>status_code = 200, json_archives = Some [''a1''], json_games = None\<rparr>),
      read_game = (\<lambda>t. if t = ''1. e4 e5''
                         then Some \<lparr>start_board = start_position, mainline_moves = [''e2e4'', ''e7e5'']\<rparr>
                         else if t = ''1. e4''
                         then Some \<lparr>start_board = start_position, mainline_moves = [''e2e4'']\<rparr>
                         else None),
      stockfish_start = (\<lambda>p. True),
      stockfish_best = (\<lambda>b. BestMove (if move_stack b = [] then Some ''e2e4''
                                         else if move_stack b = [''e2e4''] then Some ''e7e5''
                                         else if move_stack b = [''e2e4'', ''e7e5''] then Some ''g1f3''
                                         else None))\<rparr>"




text \<open>The work unit the selection makes of a game when the handle requested is \<open>Alice\<close>.\<close>

definition alice_unit :: "game \<Rightarrow> work_unit" where
  "alice_unit g = (g, ''Alice'', STOCKFISH_PATH)"

text \<open>An archive service that knows no archive period for any handle.\<close>

definition empty_ext :: externals where
  "empty_ext = (sample_ext [])\<lparr>scraper_get :=
     (\<lambda>u. \<lparr>status_code = 200, json_archives = Some [], json_games = None\<rparr>)\<rparr>"

section \<open>Lemmas about the scorer\<close>




section \<open>Lemmas about the replay and the accuracy\<close>


lemma replay_never_echo:
  "never_echo ext \<Longrightarrow> snd (replay ext uc b t bm ms) = Inr (t', bm') \<Longrightarrow> bm' = bm"
proof (induction ms arbitrary: b t bm)
  case Nil
  then show ?case by simp
next
  case (Cons m ms)
  have ne: "stockfish_best ext (push b m) \<noteq> BestMove (Some m)"
    using Cons.prems(1) by (simp add: never_echo_def)
  from Cons.prems(2) ne have
    r: "snd (replay ext uc (push b m) (t + 1) bm ms) = Inr (t', bm')"
    by (auto simp: Let_def split: if_splits engine_reply.splits)
  from Cons.IH[OF Cons.prems(1) r] show ?case .
qed







lemma count_moves_never_echo:
  "never_echo ext \<Longrightarrow> snd (count_moves ext uc g) = Inr (t, bm) \<Longrightarrow> bm = 0"
  by (auto simp: count_moves_def Let_def split: if_splits option.splits dest: replay_never_echo)

lemma py_round2_zero: "py_round2 0 = 0"
  by (simp add: py_round2_def round_half_even_def)




lemma accuracy_zero: "accuracy 0 t = Inr 0"
  by (simp add: accuracy_def py_truediv_def bind_err_def py_round2_zero)







lemma analyze_Inr:
  "snd (analyze_game_process_safe ext (g, h, p)) = Inr r \<Longrightarrow>
     \<exists>uc t bm. user_color_of g h = Inr uc \<and> snd (count_moves ext uc g) = Inr (t, bm)
       \<and> accuracy bm t = Inr (precisao r)"
  by (auto simp: analyze_game_process_safe_def bind_err_def get_key_def
      split: if_splits sum.splits prod.splits option.splits)


section \<open>Lemmas about the pool and the selection\<close>

lemma mset_as_completed: "mset (as_completed sched xs) = mset xs"
proof (induction sched xs rule: as_completed.induct)
  case (3 k sched v va)
  let ?xs = "v # va"
  let ?i = "k mod length ?xs"
  have i: "?i < length ?xs" by simp
  have "mset ?xs = mset (take ?i ?xs @ ?xs ! ?i # drop (Suc ?i) ?xs)"
    using id_take_nth_drop[OF i] by simp
  with 3 show ?case
    by (simp add: Let_def)
qed simp_all

lemma length_as_completed: "length (as_completed sched xs) = length xs"
  using mset_as_completed[of sched xs] by (metis size_mset)

lemma collect_append:
  "collect ds fs = ds @ map (projr \<circ> snd) (filter (\<lambda>f. \<not> isl (snd f)) fs)"
  by (induction ds fs rule: collect.induct) simp_all

lemma mset_collect:
  "mset (collect [] fs) = image_mset (projr \<circ> snd) (filter_mset (\<lambda>f. \<not> isl (snd f)) (mset fs))"
  by (simp add: collect_append flip: mset_filter mset_map)

lemma mset_run_pool:
  "mset (snd (run_pool ext sched partidas)) =
     image_mset (\<lambda>u. projr (snd (analyze_game_process_safe ext u)))
       (filter_mset (\<lambda>u. \<not> isl (snd (analyze_game_process_safe ext u))) (mset partidas))"
proof -
  let ?f = "analyze_game_process_safe ext"
  have "mset (snd (run_pool ext sched partidas)) =
          mset (map (projr \<circ> snd) (filter (\<lambda>f. \<not> isl (snd f)) (map ?f partidas)))"
    by (simp add: run_pool_def Let_def mset_collect mset_as_completed)
  also have "\<dots> = mset (map (\<lambda>u. projr (snd (?f u))) (filter (\<lambda>u. \<not> isl (snd (?f u))) partidas))"
    by (simp add: filter_map comp_def)
  finally show ?thesis
    by simp
qed

lemma length_run_pool:
  "length (snd (run_pool ext sched partidas)) =
     length (filter (\<lambda>u. \<not> isl (snd (analyze_game_process_safe ext u))) partidas)"
proof -
  have "length (snd (run_pool ext sched partidas)) = size (mset (snd (run_pool ext sched partidas)))"
    by simp
  also have "\<dots> = size (filter_mset (\<lambda>u. \<not> isl (snd (analyze_game_process_safe ext u))) (mset partidas))"
    by (simp only: mset_run_pool size_image_mset)
  also have "\<dots> = length (filter (\<lambda>u. \<not> isl (snd (analyze_game_process_safe ext u))) partidas)"
    by (simp flip: mset_filter)
  finally show ?thesis .
qed

lemma replay_no_start: "filter is_engine_start (fst (replay ext uc b t bm ms)) = []"
  by (induction ms arbitrary: b t bm) (auto simp: Let_def split: engine_reply.splits)

lemma count_moves_no_start: "filter is_engine_start (fst (count_moves ext uc g)) = []"
  by (simp add: count_moves_def Let_def replay_no_start split: option.splits)

lemma count_moves_no_start_pair:
  "count_moves ext uc g = (tr, r) \<Longrightarrow> filter is_engine_start tr = []"
  using count_moves_no_start[of ext uc g] by simp

lemma analyze_one_start:
  "filter is_engine_start (fst (analyze_game_process_safe ext (g, h, p))) = [EngineStart p]"
  by (auto simp: analyze_game_process_safe_def split: sum.splits prod.splits
      dest: count_moves_no_start_pair)

lemma select_games_full:
  "length ps \<ge> max_partidas \<Longrightarrow> select_games h ps gs = Inr ps"
  by (cases gs) simp_all

lemma select_games_skip:
  "white g = None \<or> black g = None \<Longrightarrow>
     select_games h ps (xs @ g # ys) = select_games h ps (xs @ ys)"
proof (induction xs arbitrary: ps)
  case Nil
  then show ?case by (auto simp: select_games_full)
next
  case (Cons x xs)
  show ?case by (simp add: Cons.IH[OF Cons.prems] cong: if_cong)
qed

lemma select_games_sides:
  "select_games h ps gs = Inr sel \<Longrightarrow> u \<in> set sel \<Longrightarrow>
     u \<in> set ps \<or> (white (fst u) \<noteq> None \<and> black (fst u) \<noteq> None)"
proof (induction h ps gs rule: select_games.induct)
  case (1 h ps)
  then show ?case by simp
next
  case (2 h ps g gs)
  show ?case
  proof (cases "length ps \<ge> max_partidas")
    case True
    with 2 show ?thesis by simp
  next
    case False
    show ?thesis
    proof (cases "white g \<noteq> None \<and> black g \<noteq> None")
      case sides: True
      with False "2.prems"(1) obtain wu bu where
        w: "username_of ''white'' (white g) = Inr wu" and
        b: "username_of ''black'' (black g) = Inr bu" and
        s: "(if lower h \<in> set [lower wu, lower bu]
             then select_games h (ps @ [(g, h, STOCKFISH_PATH)]) gs
             else select_games h ps gs) = Inr sel"
        by (auto simp: bind_err_def split: sum.splits)
      show ?thesis
      proof (cases "lower h \<in> set [lower wu, lower bu]")
        case m: True
        with s have "select_games h (ps @ [(g, h, STOCKFISH_PATH)]) gs = Inr sel" by simp
        from "2.IH"(1)[OF False sides m this "2.prems"(2)] sides show ?thesis by auto
      next
        case m: False
        with s have "select_games h ps gs = Inr sel" by simp
        from "2.IH"(2)[OF False sides m this "2.prems"(2)] show ?thesis .
      qed
    next
      case nos: False
      with False "2.prems"(1) have "select_games h ps gs = Inr sel" by auto
      from "2.IH"(3)[OF False nos this "2.prems"(2)] show ?thesis .
    qed
  qed
qed

lemma select_archives_sides:
  "select_archives ext h ps archs = Inr sel \<Longrightarrow> u \<in> set sel \<Longrightarrow>
     u \<in> set ps \<or> (white (fst u) \<noteq> None \<and> black (fst u) \<noteq> None)"
proof (induction archs arbitrary: ps)
  case Nil
  then show ?case by simp
next
  case (Cons a archs)
  from Cons.prems(1) obtain ps' where
    g: "select_games h ps (fetch_games_from_archive ext a) = Inr ps'" and
    r: "(if length ps' \<ge> max_partidas then Inr ps' else select_archives ext h ps' archs) = Inr sel"
    by (auto simp: bind_err_def split: sum.splits)
  have "u \<in> set ps' \<or> (white (fst u) \<noteq> None \<and> black (fst u) \<noteq> None)"
  proof (cases "length ps' \<ge> max_partidas")
    case True
    with r Cons.prems(2) show ?thesis by simp
  next
    case False
    with r have "select_archives ext h ps' archs = Inr sel" by simp
    from Cons.IH[OF this Cons.prems(2)] show ?thesis .
  qed
  with select_games_sides[OF g] show ?case by blast
qed

lemma engine_starts_worker: "engine_starts (worker ext units) = length units"
proof (induction units)
  case Nil
  then show ?case by (simp add: engine_starts_def worker_def)
next
  case (Cons u units)
  obtain g h p where u: "u = (g, h, p)" by (cases u) auto
  from Cons show ?case
    by (simp add: engine_starts_def worker_def u analyze_one_start)
qed

lemma count_moves_no_text:
  "pgn g = None \<or> pgn g = Some [] \<Longrightarrow> count_moves ext uc g = ([], Inr (0, 0))"
  by (auto simp: count_moves_def)

section \<open>The sample inputs, evaluated\<close>

lemmas header_defs = opponent_of_def outcome_of_def user_color_of_def username_of_def
  result_of_def get_key_def bind_err_def

lemmas game_defs = game_alice_bob_def game_bob_alice_def game_no_pgn_def game_no_white_def
  game_no_username_def game_blank_pgn_def player_def start_position_def

lemmas sample_defs = sample_ext_def empty_ext_def game_defs

lemmas select_defs = username_of_def get_key_def bind_err_def max_partidas_def

lemmas analyze_defs = analyze_game_process_safe_def header_defs count_moves_def Let_def
  push_def accuracy_def py_truediv_def py_round2_zero

lemma lower_samples:
  "lower ''Alice'' = ''alice''" "lower ''alice'' = ''alice''" "lower ''bob'' = ''bob''"
  by code_simp+

lemma run_alice_bob:
  "analyze_game_process_safe (sample_ext games) (game_alice_bob, ''Alice'', p) =
     ([EngineStart p,
       EngineQuery \<lparr>start_fen = ''startpos'', turn = White, move_stack = [''e2e4'', ''e7e5'']\<rparr>],
      Inr \<lparr>oponente = ''bob'', resultado = ''win'', precisao = 0, res_url = ''g1''\<rparr>)"
  by (simp add: analyze_defs sample_defs)

lemma run_alice_bob_lower:
  "analyze_game_process_safe (sample_ext games) (game_alice_bob, ''alice'', p) =
     ([EngineStart p,
       EngineQuery \<lparr>start_fen = ''startpos'', turn = Black, move_stack = [''e2e4'']\<rparr>],
      Inr \<lparr>oponente = ''bob'', resultado = ''resigned'', precisao = 0, res_url = ''g1''\<rparr>)"
  by (simp add: analyze_defs sample_defs)

lemma run_bob_alice:
  "analyze_game_process_safe (sample_ext games) (game_bob_alice, ''Alice'', p) =
     ([EngineStart p,
       EngineQuery \<lparr>start_fen = ''startpos'', turn = Black, move_stack = [''e2e4'']\<rparr>],
      Inr \<lparr>oponente = ''bob'', resultado = ''timeout'', precisao = 0, res_url = ''g2''\<rparr>)"
  by (simp add: analyze_defs sample_defs)

lemma run_no_pgn:
  "analyze_game_process_safe (sample_ext games) (game_no_pgn, ''Alice'', p) =
     ([EngineStart p],
      Inr \<lparr>oponente = ''bob'', resultado = ''win'', precisao = 0, res_url = ''g1''\<rparr>)"
  by (simp add: analyze_defs sample_defs)

lemma sample_never_echo: "never_echo (sample_ext games)"
  by (auto simp: never_echo_def sample_ext_def push_def)




lemma run_blank_pgn:
  "analyze_game_process_safe (sample_ext games) (game_blank_pgn, ''Alice'', p) =
     ([EngineStart p], Inl AttributeError)"
  by (simp add: analyze_defs sample_defs)

lemma fetch_sample: "fetch_archives (sample_ext games) ''Alice'' = [''a1'']"
  by (simp add: fetch_archives_def sample_ext_def lower_samples)


lemma fetch_games_sample: "fetch_games_from_archive (sample_ext games) ''a1'' = games"
  by (simp add: fetch_games_from_archive_def sample_ext_def)

lemma select_sample:
  "select_games ''Alice'' [] [game_alice_bob, game_no_pgn] =
     Inr [(game_alice_bob, ''Alice'', STOCKFISH_PATH), (game_no_pgn, ''Alice'', STOCKFISH_PATH)]"
  by (simp add: select_defs lower_samples game_defs)



lemma select_one_no_pgn:
  "select_archives (sample_ext [game_no_pgn]) ''Alice'' [] [''a1''] = Inr [alice_unit game_no_pgn]"
  by (simp add: fetch_games_sample alice_unit_def select_defs lower_samples game_defs)

lemma pool_no_pgn:
  "run_pool (sample_ext games) [] [alice_unit game_no_pgn] =
     ([EngineStart STOCKFISH_PATH],
      [\<lparr>oponente = ''bob'', resultado = ''win'', precisao = 0, res_url = ''g1''\<rparr>])"
  by (simp add: run_pool_def alice_unit_def run_no_pgn)

section \<open>The suspicion score\<close>





section \<open>The accuracy of one game\<close>



section \<open>The replay compares the wrong move\<close>

text \<open>
  C1 says that the engine is asked at the position before each move of the requested
  handle, that only those moves are counted, and that a match is a move of the handle equal
  to the engine's choice there. The code pushes the move first and then tests the turn:
  it passes over the moves of the handle, asks the engine after each move of the opponent,
  compares the answer with that move of the opponent, and counts every move. In the
  sample game Alice, with White, plays \<open>e2e4\<close>, the engine's own choice in the starting
  position; Bob answers \<open>e7e5\<close>. The one move of Alice matches, so C1 gives an accuracy
  of 100. The code asks the engine once, after Bob's move, and answers 0.
\<close>

theorem player_move_not_compared:
  "read_game (sample_ext []) ''1. e4 e5'' =
     Some \<lparr>start_board = start_position, mainline_moves = [''e2e4'', ''e7e5'']\<rparr>
   \<and> user_color_of game_alice_bob ''Alice'' = Inr ''white''
   \<and> target_moves (sample_ext []) (game_alice_bob, ''Alice'', STOCKFISH_PATH) = 1
   \<and> stockfish_best (sample_ext []) start_position = BestMove (Some ''e2e4'')
   \<and> analyze_game_process_safe (sample_ext []) (game_alice_bob, ''Alice'', STOCKFISH_PATH) =
       ([EngineStart STOCKFISH_PATH,
         EngineQuery (push (push start_position ''e2e4'') ''e7e5'')],
        Inr \<lparr>oponente = ''bob'', resultado = ''win'', precisao = 0, res_url = ''g1''\<rparr>)"
  by (simp add: run_alice_bob) (simp add: target_moves_def sample_defs header_defs push_def)

text \<open>
  What the replay computes for an engine that answers as a chess engine does: the answer
  for the position after a move is never that move, so no match is ever counted and the
  accuracy of every result is 0, whatever the player did.
\<close>

theorem accuracy_zero_with_chess_engine:
  "never_echo ext \<Longrightarrow> snd (analyze_game_process_safe ext game_data) = Inr r \<Longrightarrow> precisao r = 0"
proof -
  assume ne: "never_echo ext" and a: "snd (analyze_game_process_safe ext game_data) = Inr r"
  obtain g h p where gd: "game_data = (g, h, p)"
    by (cases game_data) auto
  from analyze_Inr[of ext g h p r] a gd obtain uc t bm where
    c: "snd (count_moves ext uc g) = Inr (t, bm)" and acc: "accuracy bm t = Inr (precisao r)"
    by auto
  from count_moves_never_echo[OF ne c] acc show ?thesis
    by (simp add: accuracy_zero)
qed

theorem accuracy_zero_with_chess_engine_witness:
  "never_echo (sample_ext [])
   \<and> (\<exists>r. snd (analyze_game_process_safe (sample_ext []) (alice_unit game_alice_bob)) = Inr r
          \<and> precisao r = 0)"
proof -
  have ne: "never_echo (sample_ext [])"
    by (rule sample_never_echo)
  obtain r where
    a: "snd (analyze_game_process_safe (sample_ext []) (alice_unit game_alice_bob)) = Inr r"
    by (simp add: alice_unit_def run_alice_bob)
  from accuracy_zero_with_chess_engine[OF ne a] ne a show ?thesis
    by blast
qed

section \<open>The letter case of the handle\<close>

text \<open>
  C4 says that changing only the letter case of the requested handle changes neither the
  side, nor the opponent, nor the outcome attributed to the player. The selection compares
  lower-cased names, so it keeps Alice's game for the handle \<open>alice\<close>; lines 46 to 48
  compare the names as they are. For \<open>Alice\<close> the analysis gives White and the result
  \<open>win\<close>; for \<open>alice\<close> it gives Black and Bob's result \<open>resigned\<close>.
\<close>

theorem handle_case_changes_outcome:
  "lower ''Alice'' = lower ''alice''
   \<and> select_games ''alice'' [] [game_alice_bob] = Inr [(game_alice_bob, ''alice'', STOCKFISH_PATH)]
   \<and> user_color_of game_alice_bob ''Alice'' = Inr ''white''
   \<and> user_color_of game_alice_bob ''alice'' = Inr ''black''
   \<and> snd (analyze_game_process_safe (sample_ext []) (game_alice_bob, ''Alice'', STOCKFISH_PATH)) =
       Inr \<lparr>oponente = ''bob'', resultado = ''win'', precisao = 0, res_url = ''g1''\<rparr>
   \<and> snd (analyze_game_process_safe (sample_ext []) (game_alice_bob, ''alice'', STOCKFISH_PATH)) =
       Inr \<lparr>oponente = ''bob'', resultado = ''resigned'', precisao = 0, res_url = ''g1''\<rparr>"
  by (simp add: run_alice_bob run_alice_bob_lower lower_samples)
    (simp add: header_defs max_partidas_def game_defs lower_samples)

section \<open>A game without move text\<close>

text \<open>
  C5 as it is stated fails: a record of the requested handle that has no move text is
  selected and analysed like any other, and the report counts it.
\<close>

theorem game_without_move_text_counterexample:
  "pgn game_no_pgn = None
   \<and> analisar_usuario (sample_ext [game_no_pgn]) [] ''Alice'' =
       ([EngineStart STOCKFISH_PATH],
        Inr (Relatorio \<lparr>usuario = ''Alice'', jogos_analisados = 1,
               detalhes = [\<lparr>oponente = ''bob'', resultado = ''win'', precisao = 0, res_url = ''g1''\<rparr>],
               suspeito = False\<rparr>))"
proof -
  have "pgn game_no_pgn = None"
    by (simp add: game_defs)
  moreover have "analisar_usuario (sample_ext [game_no_pgn]) [] ''Alice'' =
       ([EngineStart STOCKFISH_PATH],
        Inr (Relatorio \<lparr>usuario = ''Alice'', jogos_analisados = 1,
               detalhes = [\<lparr>oponente = ''bob'', resultado = ''win'', precisao = 0, res_url = ''g1''\<rparr>],
               suspeito = False\<rparr>))"
    by (simp only: analisar_usuario_def fetch_sample Let_def rev.simps append_Nil
          select_one_no_pgn pool_no_pgn)
       (simp add: pool_no_pgn avaliar_suspeita_def suspicion_score_def Let_def)
  ultimately show ?thesis by blast
qed

text \<open>
  C5, amended. A record whose move text is missing or empty, and one of whose sides is the
  requested handle up to letter case, becomes a work unit while fewer than ten are
  selected. Every result its analysis produces has accuracy 0, and when the engine starts
  and the record holds both results and its URL, the analysis produces a result without
  asking the engine anything.
\<close>

theorem game_without_move_text_scores_zero:
  assumes nt: "pgn g = None \<or> pgn g = Some []"
    and w: "white g = Some w" and b: "black g = Some b"
    and wu: "side_username w = Some wu" and bu: "side_username b = Some bu"
    and m: "lower h = lower wu \<or> lower h = lower bu"
    and room: "length ps < max_partidas"
  shows "select_games h ps (g # gs) = select_games h (ps @ [(g, h, STOCKFISH_PATH)]) gs
       \<and> (\<forall>r. snd (analyze_game_process_safe ext (g, h, p)) = Inr r \<longrightarrow> precisao r = 0)
       \<and> (stockfish_start ext p \<and> side_result w \<noteq> None \<and> side_result b \<noteq> None \<and> url g \<noteq> None
            \<longrightarrow> (\<exists>r. analyze_game_process_safe ext (g, h, p) = ([EngineStart p], Inr r)))"
proof -
  have s: "select_games h ps (g # gs) = select_games h (ps @ [(g, h, STOCKFISH_PATH)]) gs"
    using w b wu bu m room by (auto simp: username_of_def get_key_def bind_err_def)
  have z: "precisao r = 0" if a: "snd (analyze_game_process_safe ext (g, h, p)) = Inr r" for r
  proof -
    from analyze_Inr[OF a] obtain uc t bm where
      c: "snd (count_moves ext uc g) = Inr (t, bm)" and acc: "accuracy bm t = Inr (precisao r)"
      by blast
    from c count_moves_no_text[OF nt, of ext uc] have "t = 0" "bm = 0" by simp_all
    with acc show ?thesis by (simp add: accuracy_def)
  qed
  have e: "\<exists>r. analyze_game_process_safe ext (g, h, p) = ([EngineStart p], Inr r)"
    if "stockfish_start ext p \<and> side_result w \<noteq> None \<and> side_result b \<noteq> None \<and> url g \<noteq> None"
    using that w b wu bu count_moves_no_text[OF nt, of ext]
    by (auto simp: analyze_game_process_safe_def header_defs accuracy_def)
  from s z e show ?thesis by blast
qed

theorem game_without_move_text_scores_zero_witness:
  "pgn game_no_pgn = None
   \<and> lower ''Alice'' = lower ''Alice''
   \<and> select_games ''Alice'' [] [game_no_pgn] = Inr [(game_no_pgn, ''Alice'', STOCKFISH_PATH)]
   \<and> (\<exists>r. analyze_game_process_safe (sample_ext []) (game_no_pgn, ''Alice'', STOCKFISH_PATH)
            = ([EngineStart STOCKFISH_PATH], Inr r) \<and> precisao r = 0)"
proof -
  let ?w = "player ''Alice'' ''win''"
  let ?b = "player ''bob'' ''resigned''"
  have nt: "pgn game_no_pgn = None \<or> pgn game_no_pgn = Some []"
    by (simp add: game_defs)
  have w: "white game_no_pgn = Some ?w" and b: "black game_no_pgn = Some ?b"
    by (simp_all add: game_defs)
  have wu: "side_username ?w = Some ''Alice''" and bu: "side_username ?b = Some ''bob''"
    by (simp_all add: player_def)
  have m: "lower ''Alice'' = lower ''Alice'' \<or> lower ''Alice'' = lower ''bob''"
    by simp
  have room: "length ([] :: work_unit list) < max_partidas"
    by (simp add: max_partidas_def)
  have ok: "stockfish_start (sample_ext []) STOCKFISH_PATH \<and> side_result ?w \<noteq> None
            \<and> side_result ?b \<noteq> None \<and> url game_no_pgn \<noteq> None"
    by (simp add: sample_ext_def game_defs)
  note t = game_without_move_text_scores_zero[OF nt w b wu bu m room,
      of "[]" "sample_ext []" STOCKFISH_PATH]
  from t have "select_games ''Alice'' [] [game_no_pgn] =
               select_games ''Alice'' ([] @ [(game_no_pgn, ''Alice'', STOCKFISH_PATH)]) []"
    by blast
  then have s: "select_games ''Alice'' [] [game_no_pgn] = Inr [(game_no_pgn, ''Alice'', STOCKFISH_PATH)]"
    by simp
  from t ok obtain r where
    a: "analyze_game_process_safe (sample_ext []) (game_no_pgn, ''Alice'', STOCKFISH_PATH)
          = ([EngineStart STOCKFISH_PATH], Inr r)"
    by blast
  with t have "precisao r = 0"
    by simp
  with nt s a show ?thesis
    by (auto simp: game_defs)
qed

section \<open>Engine sessions\<close>

text \<open>
  C6 as it is stated fails: a pool process that runs two work units starts the engine
  twice, because \<open>Stockfish(path=...)\<close> is the first statement of the analysis of a unit.
\<close>

theorem one_engine_per_worker_counterexample:
  "engine_starts (worker (sample_ext []) [alice_unit game_alice_bob, alice_unit game_bob_alice]) = 2"
  by (simp add: engine_starts_def worker_def alice_unit_def run_alice_bob run_bob_alice)

text \<open>
  C6, amended. The analysis of every work unit starts one engine of its own: a process
  that runs \<open>n\<close> units starts \<open>n\<close> engines, one in each run.
\<close>

theorem one_engine_per_game:
  "engine_starts (worker ext units) = length units
   \<and> list_all (\<lambda>run. length (filter is_engine_start (fst run)) = 1) (worker ext units)"
proof -
  have "length (filter is_engine_start (fst (analyze_game_process_safe ext u))) = 1" for u
    by (cases u) (simp add: analyze_one_start)
  then have "list_all (\<lambda>run. length (filter is_engine_start (fst run)) = 1) (worker ext units)"
    by (simp add: worker_def list_all_iff)
  with engine_starts_worker show ?thesis by blast
qed

theorem one_engine_per_game_witness:
  "engine_starts (worker empty_ext [alice_unit game_no_pgn, alice_unit game_blank_pgn,
     alice_unit game_no_white]) = 3"
  using one_engine_per_game[of empty_ext
      "[alice_unit game_no_pgn, alice_unit game_blank_pgn, alice_unit game_no_white]"]
  by simp

section \<open>A failing unit\<close>

text \<open>
  C7. When the analysis of exactly one of the submitted work units raises, the batch
  collected holds one result fewer than the units submitted, whatever the order in which
  the futures finish, and it holds the result of every unit that did not raise.
\<close>

theorem one_failure_drops_one_result:
  "length (filter (\<lambda>u. isl (snd (analyze_game_process_safe ext u))) partidas) = 1 \<Longrightarrow>
     length (snd (run_pool ext sched partidas)) = length partidas - 1
     \<and> mset (snd (run_pool ext sched partidas)) =
         image_mset (\<lambda>u. projr (snd (analyze_game_process_safe ext u)))
           (filter_mset (\<lambda>u. \<not> isl (snd (analyze_game_process_safe ext u))) (mset partidas))"
proof -
  let ?bad = "\<lambda>u. isl (snd (analyze_game_process_safe ext u))"
  assume one: "length (filter ?bad partidas) = 1"
  have "length (filter ?bad partidas) + length (filter (\<lambda>u. \<not> ?bad u) partidas) = length partidas"
    by (rule sum_length_filter_compl)
  with one have "length (filter (\<lambda>u. \<not> ?bad u) partidas) = length partidas - 1"
    by simp
  then have "length (snd (run_pool ext sched partidas)) = length partidas - 1"
    by (simp only: length_run_pool)
  with mset_run_pool show ?thesis by blast
qed

theorem one_failure_drops_one_result_witness:
  "length (filter (\<lambda>u. isl (snd (analyze_game_process_safe (sample_ext []) u)))
             [alice_unit game_alice_bob, alice_unit game_blank_pgn]) = 1
   \<and> length (snd (run_pool (sample_ext []) [1] [alice_unit game_alice_bob, alice_unit game_blank_pgn])) = 1"
proof -
  have one: "length (filter (\<lambda>u. isl (snd (analyze_game_process_safe (sample_ext []) u)))
             [alice_unit game_alice_bob, alice_unit game_blank_pgn]) = 1"
    by (simp add: alice_unit_def run_alice_bob run_blank_pgn)
  from one_failure_drops_one_result[OF one, of "[1]"] have
    "length (snd (run_pool (sample_ext []) [1] [alice_unit game_alice_bob, alice_unit game_blank_pgn])) = 1"
    by simp
  with one show ?thesis by blast
qed

section \<open>The payloads of the endpoint\<close>




section \<open>Records without a side\<close>

text \<open>
  C10. A record that has no \<open>white\<close> or no \<open>black\<close> entry is passed over by the
  selection: the selection over an archive answers what it answers without the record,
  error or not, and no work unit selected from any archives holds the record.
\<close>

theorem record_without_side_is_skipped:
  "white g = None \<or> black g = None \<Longrightarrow>
     select_games h ps (xs @ g # ys) = select_games h ps (xs @ ys)
     \<and> (\<forall>sel. select_archives ext h [] archs = Inr sel \<longrightarrow> g \<notin> fst ` set sel)"
proof -
  assume m: "white g = None \<or> black g = None"
  have "g \<notin> fst ` set sel" if s: "select_archives ext h [] archs = Inr sel" for sel
  proof
    assume "g \<in> fst ` set sel"
    then obtain u where u: "u \<in> set sel" and f: "fst u = g" by auto
    from select_archives_sides[OF s u] f m show False by auto
  qed
  with select_games_skip[OF m] show ?thesis by blast
qed

theorem record_without_side_is_skipped_witness:
  "white game_no_white = None
   \<and> select_games ''Alice'' [] ([game_alice_bob] @ game_no_white # [game_no_pgn]) =
       Inr [(game_alice_bob, ''Alice'', STOCKFISH_PATH), (game_no_pgn, ''Alice'', STOCKFISH_PATH)]"
proof -
  have w: "white game_no_white = None"
    by (simp add: sample_defs)
  then have "white game_no_white = None \<or> black game_no_white = None" ..
  from record_without_side_is_skipped[OF this, of "''Alice''" "[]" "[game_alice_bob]" "[game_no_pgn]"]
  have "select_games ''Alice'' [] ([game_alice_bob] @ game_no_white # [game_no_pgn])
        = select_games ''Alice'' [] ([game_alice_bob] @ [game_no_pgn])"
    by blast
  with w show ?thesis
    by (simp only: select_sample append.simps)
qed

end
